theory Spec2Isabelle
  imports Complex_Main
begin

section \<open>Errors\<close>

text \<open>
  Every exception the modelled code can raise is a value. The carried string is the
  fixed part of the Python message.
\<close>

datatype error =
    ValueError string
  | KeyError string
  | AssertionError string
  | AttributeError string

section \<open>The numerical libraries\<close>

text \<open>
  The sampler calls \<^verbatim>\<open>numpy.random\<close> (a process-wide generator state) and
  \<^verbatim>\<open>scipy.special.loggamma\<close>, and the methods
  \<^verbatim>\<open>sample_number_of_occurrences\<close> and \<^verbatim>\<open>proba_number_of_occurrences\<close>
  of a rupture. None of them is part of the sources, so they are parameters: a generator
  state of type \<open>'g\<close>, one function per elementary draw (each returns the drawn value
  and the next state), and the two rupture methods. Python floats are idealised as
  \<open>real\<close>: rounding, infinities and NaN are outside the model.
\<close>

record point =
  longitude :: real
  latitude :: real
  depth :: real

record nodal_plane =
  strike :: real
  dip :: real
  rake :: real

record tom =
  time_span :: real

record 'surf rupture =
  mag :: real
  rup_rake :: real
  rup_tectonic_region_type :: string
  hypocenter :: point
  surface :: 'surf
  occurrence_rate :: real
  rup_temporal_occurrence_model :: "tom option"
  rup_id :: "int option"
  idx :: "nat option"

record ('g, 'surf) env =
  np_seed :: "int \<Rightarrow> 'g"
  np_poisson1 :: "'g \<Rightarrow> real \<Rightarrow> nat \<times> 'g"
  np_random1 :: "'g \<Rightarrow> real \<times> 'g"
  np_choice1 :: "'g \<Rightarrow> nat \<Rightarrow> nat \<times> 'g"
  sp_loggamma :: "real \<Rightarrow> real"
  sample_number_of_occurrences :: "'surf rupture \<Rightarrow> int \<Rightarrow> 'g \<Rightarrow> nat list \<times> 'g"
  proba_number_of_occurrences :: "'surf rupture \<Rightarrow> nat \<Rightarrow> real"

text \<open>One draw per element of a list, left to right, threading the generator state.\<close>

fun draw_each :: "('g \<Rightarrow> 'a \<Rightarrow> 'b \<times> 'g) \<Rightarrow> 'g \<Rightarrow> 'a list \<Rightarrow> 'b list \<times> 'g" where
  "draw_each d g [] = ([], g)"
| "draw_each d g (x # xs) =
     (case d g x of (y, g1) \<Rightarrow>
        (case draw_each d g1 xs of (ys, g2) \<Rightarrow> (y # ys, g2)))"

text \<open>
  \<^verbatim>\<open>numpy.random.seed(n)\<close> replaces the whole state, whatever it was, and refuses a
  seed outside \<open>[0, 2^32)\<close>. \<^verbatim>\<open>numpy.random.seed(None)\<close> reads fresh entropy from the
  operating system: the state it leaves is an input of the model.
\<close>

definition random_seed :: "('g, 'surf) env \<Rightarrow> int \<Rightarrow> error + 'g" where
  "random_seed E s =
     (if 0 \<le> s \<and> s < 2 ^ 32 then Inr (np_seed E s)
      else Inl (ValueError ''Seed must be between 0 and 2**32 - 1''))"

definition random_seed_opt :: "('g, 'surf) env \<Rightarrow> 'g \<Rightarrow> int option \<Rightarrow> error + 'g" where
  "random_seed_opt E entropy s =
     (case s of None \<Rightarrow> Inr entropy | Some n \<Rightarrow> random_seed E n)"

text \<open>\<^verbatim>\<open>numpy.random.poisson(lam)\<close> on an array: all rates are checked first.\<close>

definition random_poisson ::
  "('g, 'surf) env \<Rightarrow> 'g \<Rightarrow> real list \<Rightarrow> error + (nat list \<times> 'g)" where
  "random_poisson E g lams =
     (if list_ex (\<lambda>l. l < 0) lams then Inl (ValueError ''lam < 0'')
      else Inr (draw_each (np_poisson1 E) g lams))"


text \<open>\<^verbatim>\<open>numpy.random.choice(n)\<close> on an integer: one element of \<open>arange(n)\<close>.\<close>

definition random_choice :: "('g, 'surf) env \<Rightarrow> 'g \<Rightarrow> nat \<Rightarrow> error + (nat \<times> 'g)" where
  "random_choice E g n =
     (if n = 0 then Inl (ValueError ''a must be greater than 0'')
      else Inr (np_choice1 E g n))"

section \<open>Seismic sources (hazardlib/source/base.py)\<close>

text \<open>
  \<^verbatim>\<open>grp_id\<close> is an integer or a sequence of integers; \<^verbatim>\<open>grp_ids\<close> wraps the
  integer in a list.
\<close>

datatype grp = GrpInt int | GrpSeq "int list"

text \<open>
  The sources iterated by \<^verbatim>\<open>for src in self\<close> in the multi-geometry branch: point
  sources with a location, a magnitude-frequency distribution, the two probability
  distributions and the geometry rule \<^verbatim>\<open>_get_rupture_surface\<close>.
\<close>

record 'surf point_source =
  ps_source_id :: string
  ps_tectonic_region_type :: string
  ps_location :: point
  ps_mfd_rates :: "(real \<times> real) list"
  ps_scaling_rate :: "real option"
  ps_min_mag :: real
  ps_nodal_plane_distribution :: "(real \<times> nodal_plane) list"
  ps_hypocenter_distribution :: "(real \<times> real) list"
  ps_get_rupture_surface :: "real \<Rightarrow> nodal_plane \<Rightarrow> point \<Rightarrow> 'surf"

text \<open>
  A source. Attributes read with \<^verbatim>\<open>getattr(self, a, default)\<close> or tested with
  \<^verbatim>\<open>hasattr\<close> are options (or a flag); the abstract methods \<^verbatim>\<open>iter_ruptures\<close>,
  \<^verbatim>\<open>count_ruptures\<close> and \<^verbatim>\<open>__iter__\<close> are given by what they return.
\<close>

record 'surf source =
  source_id :: string
  name :: string
  tectonic_region_type :: string
  grp_id :: grp
  serial :: int
  seed :: "int option"
  min_mag :: real
  temporal_occurrence_model :: "tom option"
  mutex_weight :: "real option"
  src_rup_id :: "int option"
  has_nodal_plane_distribution :: bool
  iter_ruptures :: "'surf rupture list"
  count_ruptures :: nat
  iter_sources :: "'surf point_source list"


text \<open>\<^verbatim>\<open>ParametricSeismicSource.get_annual_occurrence_rates\<close>, with \<^verbatim>\<open>min_rate=0\<close>.\<close>

definition get_annual_occurrence_rates :: "'surf point_source \<Rightarrow> (real \<times> real) list" where
  "get_annual_occurrence_rates ps =
     (let scaling_rate = (case ps_scaling_rate ps of None \<Rightarrow> 1 | Some s \<Rightarrow> s)
      in map (\<lambda>(m, occ_rate). (m, occ_rate * scaling_rate))
           (filter (\<lambda>(m, occ_rate). occ_rate > 0 \<and> m \<ge> ps_min_mag ps) (ps_mfd_rates ps)))"

subsection \<open>The Poissonian sampler\<close>

text \<open>
  \<^verbatim>\<open>numpy.exp(occurs * numpy.log(lam) - lam - loggamma(occurs + 1))\<close>, elementwise.
\<close>

definition probas_of :: "(real \<Rightarrow> real) \<Rightarrow> nat list \<Rightarrow> real list \<Rightarrow> real list" where
  "probas_of lg occurs lams =
     map2 (\<lambda>k l. exp (real k * ln l - l - lg (real k + 1))) occurs lams"

type_synonym 'surf rup_args =
  "real \<times> real \<times> real \<times> real \<times> nodal_plane \<times> real \<times> 'surf point_source"

text \<open>The nested loops that fill \<^verbatim>\<open>rup_args\<close>; \<^verbatim>\<open>rates\<close> is computed from it.\<close>

definition rup_args_of :: "'surf source \<Rightarrow> 'surf rup_args list" where
  "rup_args_of src =
     concat (map (\<lambda>ps.
       concat (map (\<lambda>(m, mag_occ_rate).
         if m < min_mag src then []
         else concat (map (\<lambda>(np_prob, np).
                map (\<lambda>(hc_prob, hc_depth).
                       (mag_occ_rate, np_prob, hc_prob, m, np, hc_depth, ps))
                    (ps_hypocenter_distribution ps))
              (ps_nodal_plane_distribution ps)))
         (get_annual_occurrence_rates ps)))
       (iter_sources src))"

definition rate_of :: "'surf rup_args \<Rightarrow> real" where
  "rate_of a = (case a of (mag_occ_rate, np_prob, hc_prob, m, np, hc_depth, ps) \<Rightarrow>
                  mag_occ_rate * np_prob * hc_prob)"

text \<open>The rupture built for a surviving combination.\<close>

definition make_rupture :: "tom \<Rightarrow> 'surf rup_args \<Rightarrow> real \<Rightarrow> 'surf rupture" where
  "make_rupture t a rate =
     (case a of (mag_occ_rate, np_prob, hc_prob, m, np, hc_depth, ps) \<Rightarrow>
        (let hc = \<lparr>longitude = longitude (ps_location ps),
                   latitude = latitude (ps_location ps), depth = hc_depth\<rparr>
         in \<lparr>mag = m, rup_rake = rake np,
             rup_tectonic_region_type = ps_tectonic_region_type ps,
             hypocenter = hc, surface = ps_get_rupture_surface ps m np hc,
             occurrence_rate = rate, rup_temporal_occurrence_model = Some t,
             rup_id = None, idx = None\<rparr>))"

definition sample_ruptures_poissonian ::
  "('g, 'surf) env \<Rightarrow> 'surf source \<Rightarrow> int \<Rightarrow> 'g \<Rightarrow>
     error + (('surf rupture \<times> nat \<times> real) list \<times> 'g)" where
  "sample_ruptures_poissonian E src eff_num_ses g =
     (case temporal_occurrence_model src of
        None \<Rightarrow> Inl (AttributeError ''temporal_occurrence_model'')
      | Some t \<Rightarrow>
          if \<not> has_nodal_plane_distribution src then
            (let ruptures = iter_ruptures src;
                 rates = map occurrence_rate ruptures;
                 lambda = map (\<lambda>r. r * time_span t * of_int eff_num_ses) rates
             in case random_poisson E g lambda of
                  Inl e \<Rightarrow> Inl e
                | Inr (occurs, g') \<Rightarrow>
                    (let probas = probas_of (sp_loggamma E) occurs lambda
                     in Inr (filter (\<lambda>(rup, num_occ, proba_occ). num_occ \<noteq> 0)
                               (zip ruptures (zip occurs probas)), g')))
          else
            (let rup_args = rup_args_of src;
                 rates = map rate_of rup_args;
                 eff_rates = map (\<lambda>r. r * time_span t * of_int eff_num_ses) rates
             in case random_poisson E g eff_rates of
                  Inl e \<Rightarrow> Inl e
                | Inr (occurs, g') \<Rightarrow>
                    (let probas = probas_of (sp_loggamma E) occurs eff_rates
                     in Inr (map (\<lambda>(num_occ, args, rate, proba_occ).
                                    (make_rupture t args rate, num_occ, proba_occ))
                               (filter (\<lambda>(num_occ, args, rate, proba_occ). num_occ \<noteq> 0)
                                  (zip occurs (zip rup_args (zip rates probas)))), g'))))"

subsection \<open>The non-parametric sampler\<close>






subsection \<open>\<^verbatim>\<open>sample_ruptures\<close>\<close>




subsection \<open>\<^verbatim>\<open>ParametricSeismicSource.get_one_rupture\<close>\<close>

text \<open>
  The loop over \<^verbatim>\<open>enumerate(self.iter_ruptures())\<close>: the rupture at position
  \<open>i\<close>, tagged, or \<^verbatim>\<open>None\<close> when the iteration ends before it.
\<close>

fun pick_rupture ::
  "int option \<Rightarrow> nat \<Rightarrow> nat \<Rightarrow> 'surf rupture list \<Rightarrow> 'surf rupture option" where
  "pick_rupture rid i k [] = None"
| "pick_rupture rid i k (rup # rups) =
     (if k = i
      then Some ((case rid of None \<Rightarrow> rup | Some r \<Rightarrow> rup\<lparr>rup_id := Some r\<rparr>)\<lparr>idx := Some i\<rparr>)
      else pick_rupture rid i (Suc k) rups)"

definition get_one_rupture ::
  "('g, 'surf) env \<Rightarrow> 'g \<Rightarrow> 'surf source \<Rightarrow> bool \<Rightarrow> 'g \<Rightarrow>
     error + ('surf rupture option \<times> 'g)" where
  "get_one_rupture E entropy src rupture_mutex g0 =
     (if rupture_mutex
      then Inl (AssertionError
        ''Mutually exclusive ruptures are admitted only in case of non-parametric sources'')
      else
        (let num_ruptures = count_ruptures src
         in case random_seed_opt E entropy (seed src) of
              Inl e \<Rightarrow> Inl e
            | Inr g \<Rightarrow>
                (case random_choice E g num_ruptures of
                   Inl e \<Rightarrow> Inl e
                 | Inr (i, g') \<Rightarrow>
                     Inr (pick_rupture (src_rup_id src) i 0 (iter_ruptures src), g'))))"

subsection \<open>What the sampler is compared with\<close>




subsection \<open>A scripted generator and three small sources\<close>

text \<open>
  A deterministic draw source: the generator state is the list of numbers still to be
  handed out. A Poisson draw returns the next number, a uniform draw the next number
  modulo 4, in quarters, and a choice among \<open>k\<close> the next number modulo \<open>k\<close>. On
  the arguments the sampler passes, \<open>ln ((n - 1)!)\<close> is \<open>loggamma n\<close>.
\<close>

definition next_draw :: "nat list \<Rightarrow> nat \<times> nat list" where
  "next_draw g = (case g of [] \<Rightarrow> (0, []) | n # ns \<Rightarrow> (n, ns))"

definition ln_factorial :: "real \<Rightarrow> real" where
  "ln_factorial x = ln (real (fact (nat \<lfloor>x\<rfloor> - 1)))"

definition scripted_env :: "nat list \<Rightarrow> (nat list, unit) env" where
  "scripted_env script =
     \<lparr>np_seed = (\<lambda>s. map (\<lambda>n. n + nat s) script),
      np_poisson1 = (\<lambda>g lam. next_draw g),
      np_random1 = (\<lambda>g. case next_draw g of (n, g') \<Rightarrow> (real (n mod 4) / 4, g')),
      np_choice1 = (\<lambda>g k. case next_draw g of (n, g') \<Rightarrow> (n mod k, g')),
      sp_loggamma = ln_factorial,
      sample_number_of_occurrences = (\<lambda>rup n g. (replicate (nat n) 1, g)),
      proba_number_of_occurrences = (\<lambda>rup k. 1 / real (Suc k))\<rparr>"

definition demo_rupture :: "real \<Rightarrow> real \<Rightarrow> unit rupture" where
  "demo_rupture m r =
     \<lparr>mag = m, rup_rake = 0, rup_tectonic_region_type = ''Active Shallow Crust'',
      hypocenter = \<lparr>longitude = 0, latitude = 0, depth = 10\<rparr>, surface = (),
      occurrence_rate = r, rup_temporal_occurrence_model = None,
      rup_id = None, idx = None\<rparr>"

text \<open>A fault source with three ruptures of annual rates 0.01, 0.02 and 0.005.\<close>

definition fault_source :: "unit source" where
  "fault_source =
     \<lparr>source_id = ''f1'', name = ''fault'', tectonic_region_type = ''Active Shallow Crust'',
      grp_id = GrpInt 0, serial = 7, seed = Some 42, min_mag = 0,
      temporal_occurrence_model = Some \<lparr>time_span = 1\<rparr>, mutex_weight = None,
      src_rup_id = None, has_nodal_plane_distribution = False,
      iter_ruptures = [demo_rupture 6 (1 / 100), demo_rupture 7 (2 / 100),
                       demo_rupture 8 (5 / 1000)],
      count_ruptures = 3, iter_sources = []\<rparr>"


section \<open>Probability maps\<close>

text \<open>
  Modelled from the spec: the class \<^verbatim>\<open>ProbabilityMap\<close> of
  \<^verbatim>\<open>openquake.hazardlib.probability_map\<close> is imported by the calculator and is not part
  of the sources. The spec describes it as a sparse mapping from a site index to an
  array of probabilities of exceedance indexed by (intensity-measure level, ground-motion
  model), created with no site, that is with probability 0 everywhere, and merged
  elementwise by \<open>1 - (1 - a) * (1 - b)\<close>; a site absent on one side is the identity.
  An array is a list of rows. Two arrays of the same shape are combined entry by entry;
  the combination of arrays of different shapes, which the spec leaves open, is cut to
  the common part. The fields \<open>calc_times\<close>, \<open>eff_ruptures\<close> and \<open>pm_grp_id\<close> are the
  attributes the calculator attaches to a map.
\<close>

record probability_map =
  shape_y :: nat
  shape_z :: nat
  curves :: "nat \<rightharpoonup> real list list"
  calc_times :: "(string \<times> nat \<times> real) list"
  eff_ruptures :: "int \<rightharpoonup> nat"
  pm_grp_id :: "int option"

text \<open>Modelled from the spec: the constructor \<^verbatim>\<open>ProbabilityMap(shape_y, shape_z)\<close>.\<close>

definition ProbabilityMap :: "nat \<Rightarrow> nat \<Rightarrow> probability_map" where
  "ProbabilityMap y z =
     \<lparr>shape_y = y, shape_z = z, curves = Map.empty, calc_times = [],
      eff_ruptures = Map.empty, pm_grp_id = None\<rparr>"

text \<open>Modelled from the spec: the combination rule of two probabilities.\<close>

definition poe_or :: "real \<Rightarrow> real \<Rightarrow> real" where
  "poe_or a b = 1 - (1 - a) * (1 - b)"

text \<open>Modelled from the spec: the combination rule applied to two arrays.\<close>

definition array_or :: "real list list \<Rightarrow> real list list \<Rightarrow> real list list" where
  "array_or x y = map2 (map2 poe_or) x y"

text \<open>
  Modelled from the spec: the merge \<^verbatim>\<open>pmap |= other\<close>. It changes the probabilities
  only; the calculator adds the effective-rupture counts itself where it wants them
  (\<^verbatim>\<open>ucerf_classical_hazard_by_branch\<close>).
\<close>

definition pmap_ior :: "probability_map \<Rightarrow> probability_map \<Rightarrow> probability_map" where
  "pmap_ior A B =
     A\<lparr>curves := (\<lambda>sid. case curves A sid of
                      None \<Rightarrow> curves B sid
                    | Some x \<Rightarrow> (case curves B sid of
                                   None \<Rightarrow> Some x
                                 | Some y \<Rightarrow> Some (array_or x y)))\<rparr>"

section \<open>The UCERF classical calculator (calculators/ucerf\_classical.py)\<close>

text \<open>
  The objects the hazard tasks receive. A site collection is the list of its site
  identifiers, a ground-motion model its name.
\<close>

record 'f ucerf_source =
  us_source_id :: string
  src_group_id :: int
  rupset_idx :: "nat list"
  us_num_ruptures :: nat
  us_src_filter :: "'f option"

record src_filter =
  sitecol :: "nat list"
  integration_distance :: "string \<Rightarrow> real"

record context_maker =
  cm_gsims :: "string list"
  cm_maximum_distance :: real

record oqparam =
  truncation_level :: "real option"
  imtls :: "(string \<times> real list) list"

text \<open>
  What the tasks call outside the sources: the distance filter of the UCERF source, the
  ground-motion evaluation \<^verbatim>\<open>poe_map\<close>, which may fail, and the time it takes. The
  world records the clock and every call of \<^verbatim>\<open>poe_map\<close>, with the rupture indices and
  the sites it was called on.
\<close>

record ucerf_env =
  DEFAULT_TRT :: string
  filter_sites_by_distance_from_rupture_set ::
    "src_filter ucerf_source \<Rightarrow> nat list \<Rightarrow> nat list \<Rightarrow> real \<Rightarrow> nat list \<times> nat list"
  poe_map ::
    "src_filter ucerf_source \<Rightarrow> nat list \<Rightarrow> (string \<times> real list) list \<Rightarrow>
       context_maker \<Rightarrow> real option \<Rightarrow> error + probability_map"
  poe_map_seconds :: "src_filter ucerf_source \<Rightarrow> nat list \<Rightarrow> real"

record world =
  now :: real
  poe_map_calls :: "(nat list \<times> nat list) list"

definition call_poe_map ::
  "ucerf_env \<Rightarrow> src_filter ucerf_source \<Rightarrow> nat list \<Rightarrow> (string \<times> real list) list \<Rightarrow>
     context_maker \<Rightarrow> real option \<Rightarrow> world \<Rightarrow> (error + probability_map) \<times> world" where
  "call_poe_map U us sites imts cmaker trunc w =
     (poe_map U us sites imts cmaker trunc,
      w\<lparr>now := now w + poe_map_seconds U us sites,
        poe_map_calls := poe_map_calls w @ [(rupset_idx us, sites)]\<rparr>)"

text \<open>\<^verbatim>\<open>len(DictArray(imtls).array)\<close>: the number of levels of all intensity measures.\<close>

definition imtls_array_len :: "(string \<times> real list) list \<Rightarrow> nat" where
  "imtls_array_len imts = sum_list (map (\<lambda>(imt, levels). length levels) imts)"

text \<open>\<^verbatim>\<open>_hazard_curves_per_rupture_subset\<close>.\<close>

definition hazard_curves_per_rupture_subset ::
  "ucerf_env \<Rightarrow> nat list \<Rightarrow> src_filter ucerf_source \<Rightarrow> nat list \<Rightarrow>
     (string \<times> real list) list \<Rightarrow> context_maker \<Rightarrow> real option \<Rightarrow> world \<Rightarrow>
     error + (probability_map \<times> src_filter ucerf_source \<times> world)" where
  "hazard_curves_per_rupture_subset U rupset us sites imts cmaker trunc w =
     (let pmap0 = (ProbabilityMap (imtls_array_len imts) (length (cm_gsims cmaker)))
                    \<lparr>calc_times := [], pm_grp_id := Some (src_group_id us)\<rparr>;
          nsites = length sites;
          us1 = us\<lparr>rupset_idx := rupset, us_num_ruptures := length rupset\<rparr>;
          pmap1 = pmap0\<lparr>eff_ruptures := [src_group_id us \<mapsto> us_num_ruptures us1]\<rparr>;
          t0 = now w
      in case call_poe_map U us1 sites imts cmaker trunc w of
           (Inl e, w1) \<Rightarrow> Inl e
         | (Inr upmap, w1) \<Rightarrow>
             (let pmap2 = pmap_ior pmap1 upmap;
                  pmap3 = pmap2\<lparr>calc_times :=
                            calc_times pmap2 @ [(us_source_id us1, nsites, now w1 - t0)]\<rparr>
              in Inr (pmap3, us1, w1)))"

text \<open>\<^verbatim>\<open>ucerf_classical_hazard_by_rupture_set\<close>.\<close>

definition ucerf_classical_hazard_by_rupture_set ::
  "ucerf_env \<Rightarrow> nat list \<Rightarrow> src_filter ucerf_source \<Rightarrow> src_filter \<Rightarrow> string list \<Rightarrow>
     oqparam \<Rightarrow> world \<Rightarrow> error + (probability_map \<times> src_filter ucerf_source \<times> world)" where
  "ucerf_classical_hazard_by_rupture_set U rupset us sf gsims oq w =
     (let trunc = truncation_level oq;
          imts = imtls oq;
          max_dist = integration_distance sf (DEFAULT_TRT U)
      in case filter_sites_by_distance_from_rupture_set U us rupset (sitecol sf) max_dist of
           (rupset1, s_sites) \<Rightarrow>
             if length s_sites \<noteq> 0 then
               (let us1 = us\<lparr>us_src_filter := Some sf\<rparr>;
                    cmaker = \<lparr>cm_gsims = gsims, cm_maximum_distance = max_dist\<rparr>
                in hazard_curves_per_rupture_subset U rupset1 us1 s_sites imts cmaker trunc w)
             else
               Inr ((ProbabilityMap (imtls_array_len imts) (length gsims))
                      \<lparr>calc_times := [], eff_ruptures := [src_group_id us \<mapsto> 0],
                       pm_grp_id := Some (src_group_id us)\<rparr>, us, w))"

subsection \<open>\<^verbatim>\<open>convert_UCERFSource\<close>\<close>












definition demo_ucerf_env :: "nat list \<Rightarrow> ucerf_env" where
  "demo_ucerf_env near =
     \<lparr>DEFAULT_TRT = ''Active Shallow Crust'',
      filter_sites_by_distance_from_rupture_set =
        (\<lambda>us rupset sites dist. (rupset, filter (\<lambda>s. s \<in> set near) sites)),
      poe_map = (\<lambda>us sites imts cmaker trunc.
         Inr ((ProbabilityMap (imtls_array_len imts) (length (cm_gsims cmaker)))
                \<lparr>curves := [0 \<mapsto> [[0]]]\<rparr>)),
      poe_map_seconds = (\<lambda>us sites. 2)\<rparr>"

definition demo_ucerf_source :: "src_filter ucerf_source" where
  "demo_ucerf_source =
     \<lparr>us_source_id = ''ucerf'', src_group_id = 3, rupset_idx = [], us_num_ruptures = 0,
      us_src_filter = None\<rparr>"

definition demo_src_filter :: src_filter where
  "demo_src_filter = \<lparr>sitecol = [0, 1], integration_distance = (\<lambda>t. 200)\<rparr>"

definition demo_oqparam :: oqparam where
  "demo_oqparam = \<lparr>truncation_level = Some 3, imtls = [(''PGA'', [1 / 10, 2 / 10])]\<rparr>"

definition world0 :: world where
  "world0 = \<lparr>now = 0, poe_map_calls = []\<rparr>"

section \<open>The composite ground-motion model (hazardlib/gsim/multi.py)\<close>

text \<open>
  A ground-motion model is known here by its capability sets. Intensity-measure
  classes, standard-deviation types and parameters are named by strings.
\<close>

record gsim =
  gsim_name :: string
  DEFINED_FOR_INTENSITY_MEASURE_TYPES :: "string set"
  DEFINED_FOR_STANDARD_DEVIATION_TYPES :: "string set"
  REQUIRES_SITES_PARAMETERS :: "string set"
  REQUIRES_RUPTURE_PARAMETERS :: "string set"
  REQUIRES_DISTANCES :: "string set"

text \<open>
  The five capability sets of \<^verbatim>\<open>MultiGMPE\<close> are attributes of the class: one set
  object each, created when the class body runs. An instance has no such attribute of
  its own, only \<^verbatim>\<open>gsim_by_imt\<close>, so \<^verbatim>\<open>self.DEFINED_FOR_...\<close> reads the set of the
  class, and \<^verbatim>\<open>self.DEFINED_FOR_....update(...)\<close> changes that set in place. The state
  of the class is therefore threaded through the constructor.
\<close>

record multi_gmpe_class =
  cls_intensity_measure_types :: "string set"
  cls_standard_deviation_types :: "string set"
  cls_sites_parameters :: "string set"
  cls_rupture_parameters :: "string set"
  cls_distances :: "string set"

record multi_gmpe =
  gsim_by_imt :: "(string \<times> gsim) list"

text \<open>The class as its body leaves it, lines 38 to 58.\<close>

definition MultiGMPE_class :: multi_gmpe_class where
  "MultiGMPE_class =
     \<lparr>cls_intensity_measure_types = {}, cls_standard_deviation_types = {''Total''},
      cls_sites_parameters = {}, cls_rupture_parameters = {''mag''}, cls_distances = {}\<rparr>"

text \<open>
  The loop of \<^verbatim>\<open>__init__\<close> over the items of the dictionary, in insertion order.
  \<open>imt_class\<close> stands for \<^verbatim>\<open>from_string(imt).__class__\<close>, which is not part of the
  sources and may fail. An error leaves the updates already made in place.
\<close>

fun init_loop ::
  "(string \<Rightarrow> string option) \<Rightarrow> (string \<times> gsim) list \<Rightarrow> multi_gmpe_class \<Rightarrow>
     error option \<times> multi_gmpe_class" where
  "init_loop imt_class [] c = (None, c)"
| "init_loop imt_class ((imt, g) # rest) c =
     (case imt_class imt of
        None \<Rightarrow> (Some (ValueError ''Unrecognized IMT''), c)
      | Some k \<Rightarrow>
          if k \<notin> DEFINED_FOR_INTENSITY_MEASURE_TYPES g
          then (Some (ValueError ''IMT not supported''), c)
          else init_loop imt_class rest
                 (c\<lparr>cls_intensity_measure_types :=
                       cls_intensity_measure_types c \<union> DEFINED_FOR_INTENSITY_MEASURE_TYPES g,
                     cls_standard_deviation_types :=
                       cls_standard_deviation_types c \<union> DEFINED_FOR_STANDARD_DEVIATION_TYPES g,
                     cls_sites_parameters :=
                       cls_sites_parameters c \<union> REQUIRES_SITES_PARAMETERS g,
                     cls_rupture_parameters :=
                       cls_rupture_parameters c \<union> REQUIRES_RUPTURE_PARAMETERS g,
                     cls_distances := cls_distances c \<union> REQUIRES_DISTANCES g\<rparr>))"

text \<open>\<^verbatim>\<open>MultiGMPE(gsim_by_imt)\<close>: the new instance, or the error, and the class after it.\<close>

definition MultiGMPE ::
  "(string \<Rightarrow> string option) \<Rightarrow> (string \<times> gsim) list \<Rightarrow> multi_gmpe_class \<Rightarrow>
     (error + multi_gmpe) \<times> multi_gmpe_class" where
  "MultiGMPE imt_class items c =
     (case init_loop imt_class items c of
        (None, c') \<Rightarrow> (Inr \<lparr>gsim_by_imt = items\<rparr>, c')
      | (Some e, c') \<Rightarrow> (Inl e, c'))"

text \<open>
  What \<^verbatim>\<open>m.DEFINED_FOR_INTENSITY_MEASURE_TYPES\<close> evaluates to for an instance \<open>m\<close>
  when the class is in state \<open>c\<close>: the attribute is found on the class.
\<close>

definition instance_intensity_measure_types ::
  "multi_gmpe_class \<Rightarrow> multi_gmpe \<Rightarrow> string set" where
  "instance_intensity_measure_types c m = cls_intensity_measure_types c"

text \<open>Two models, one for PGA and one for spectral acceleration.\<close>

definition demo_imt_class :: "string \<Rightarrow> string option" where
  "demo_imt_class imt =
     (if imt = ''PGA'' then Some ''PGA''
      else if take 3 imt = ''SA('' then Some ''SA'' else None)"

definition gsim_pga :: gsim where
  "gsim_pga =
     \<lparr>gsim_name = ''A'', DEFINED_FOR_INTENSITY_MEASURE_TYPES = {''PGA''},
      DEFINED_FOR_STANDARD_DEVIATION_TYPES = {''Total''},
      REQUIRES_SITES_PARAMETERS = {''vs30''}, REQUIRES_RUPTURE_PARAMETERS = {''mag''},
      REQUIRES_DISTANCES = {''rjb''}\<rparr>"

definition gsim_sa :: gsim where
  "gsim_sa =
     \<lparr>gsim_name = ''B'', DEFINED_FOR_INTENSITY_MEASURE_TYPES = {''SA''},
      DEFINED_FOR_STANDARD_DEVIATION_TYPES = {''Total'', ''Inter event''},
      REQUIRES_SITES_PARAMETERS = {''vs30'', ''z1pt0''},
      REQUIRES_RUPTURE_PARAMETERS = {''mag'', ''rake''},
      REQUIRES_DISTANCES = {''rrup''}\<rparr>"

section \<open>Evaluating the scripted generator\<close>

lemma scripted_env_sel:
  "np_seed (scripted_env s) = (\<lambda>n. map (\<lambda>k. k + nat n) s)"
  "np_poisson1 (scripted_env s) g lam = next_draw g"
  "np_random1 (scripted_env s) g = (case next_draw g of (n, g') \<Rightarrow> (real (n mod 4) / 4, g'))"
  "np_choice1 (scripted_env s) g k = (case next_draw g of (n, g') \<Rightarrow> (n mod k, g'))"
  "sp_loggamma (scripted_env s) = ln_factorial"
  "sample_number_of_occurrences (scripted_env s) rup n g = (replicate (nat n) 1, g)"
  "proba_number_of_occurrences (scripted_env s) rup k = 1 / real (Suc k)"
  by (simp_all add: scripted_env_def)

lemma next_draw_simps:
  "next_draw [] = (0, [])" "next_draw (n # ns) = (n, ns)"
  by (simp_all add: next_draw_def)

section \<open>Properties of the sampler\<close>

lemma probas_of_nth:
  "n < length ks \<Longrightarrow> n < length ls \<Longrightarrow>
   probas_of lg ks ls ! n = exp (real (ks ! n) * ln (ls ! n) - ls ! n - lg (real (ks ! n) + 1))"
  by (simp add: probas_of_def)

lemma length_probas_of: "length (probas_of lg ks ls) = min (length ks) (length ls)"
  by (simp add: probas_of_def)

lemma zip_probas_fault:
  assumes "(rup, k, p) \<in> set (zip rs (zip ks (probas_of lg ks (map h (map f rs)))))"
  shows "p = exp (real k * ln (h (f rup)) - h (f rup) - lg (real k + 1))"
proof -
  let ?ps = "probas_of lg ks (map h (map f rs))"
  from assms obtain n where n: "rs ! n = rup" "zip ks ?ps ! n = (k, p)"
    "n < length rs" "n < length (zip ks ?ps)"
    by (auto simp: in_set_zip)
  then have len: "n < length ks" by (simp add: length_probas_of)
  with n have "ks ! n = k" and "?ps ! n = p" by simp_all
  with n len show ?thesis by (simp add: probas_of_nth)
qed

lemma zip_probas_multi:
  assumes "(k, a, r, p) \<in> set (zip ks (zip as (zip (map f as) (probas_of lg ks (map h (map f as))))))"
  shows "r = f a \<and> p = exp (real k * ln (h r) - h r - lg (real k + 1))"
proof -
  let ?ps = "probas_of lg ks (map h (map f as))"
  from assms obtain n where n: "ks ! n = k" "zip as (zip (map f as) ?ps) ! n = (a, r, p)"
    "n < length ks" "n < length (zip as (zip (map f as) ?ps))"
    by (auto simp: in_set_zip)
  then have len: "n < length as" by simp
  have l2: "n < length ?ps" using n len by (simp add: length_probas_of)
  have "zip as (zip (map f as) ?ps) ! n = (as ! n, f (as ! n), ?ps ! n)"
    using len l2 by simp
  with n have e: "as ! n = a" "f (as ! n) = r" "?ps ! n = p"
    by simp_all
  have "?ps ! n = exp (real (ks ! n) * ln (h (f (as ! n))) - h (f (as ! n))
                       - lg (real (ks ! n) + 1))"
    using n len by (simp add: probas_of_nth)
  with e n show ?thesis by simp
qed

lemma occurrence_rate_make_rupture: "occurrence_rate (make_rupture t a r) = r"
  by (cases a) (simp add: make_rupture_def Let_def)

text \<open>
  C1. Whenever the Poissonian sampler yields a rupture with occurrence count \<open>k\<close> and
  point probability \<open>p\<close>, then \<open>p = exp (k * ln L - L - loggamma (k + 1))\<close>, where
  \<open>L\<close> is the rupture's occurrence rate times the time span times the effective number
  of repeats. In the fault branch the rate is that of the rupture of \<^verbatim>\<open>iter_ruptures\<close>;
  in the multi-geometry branch it is the product of the magnitude rate and the two
  probabilities, which is the rate the materialised rupture carries.
\<close>

theorem sample_ruptures_poissonian_proba:
  assumes run: "sample_ruptures_poissonian E src eff_num_ses g = Inr (out, g')"
    and t: "temporal_occurrence_model src = Some t"
    and mem: "(rup, k, p) \<in> set out"
  shows "p = exp (real k * ln (occurrence_rate rup * time_span t * of_int eff_num_ses)
                  - occurrence_rate rup * time_span t * of_int eff_num_ses
                  - sp_loggamma E (real k + 1))"
proof (cases "has_nodal_plane_distribution src")
  case False
  let ?h = "\<lambda>r. r * time_span t * of_int eff_num_ses"
  let ?lam = "map ?h (map occurrence_rate (iter_ruptures src))"
  from run t False obtain occurs where
    out: "out = filter (\<lambda>(rup, num_occ, proba_occ). num_occ \<noteq> 0)
                  (zip (iter_ruptures src) (zip occurs (probas_of (sp_loggamma E) occurs ?lam)))"
    by (auto simp: sample_ruptures_poissonian_def Let_def split: sum.splits)
  with mem have "(rup, k, p) \<in> set (zip (iter_ruptures src)
      (zip occurs (probas_of (sp_loggamma E) occurs ?lam)))"
    by simp
  then show ?thesis by (rule zip_probas_fault)
next
  case True
  let ?h = "\<lambda>r. r * time_span t * of_int eff_num_ses"
  let ?lam = "map ?h (map rate_of (rup_args_of src))"
  let ?z = "\<lambda>occurs. zip occurs (zip (rup_args_of src) (zip (map rate_of (rup_args_of src))
               (probas_of (sp_loggamma E) occurs ?lam)))"
  from run t True obtain occurs where
    out: "out = map (\<lambda>(num_occ, args, rate, proba_occ).
                       (make_rupture t args rate, num_occ, proba_occ))
                 (filter (\<lambda>(num_occ, args, rate, proba_occ). num_occ \<noteq> 0) (?z occurs))"
    by (auto simp: sample_ruptures_poissonian_def Let_def split: sum.splits)
  with mem obtain a r where rup: "rup = make_rupture t a r" and "(k, a, r, p) \<in> set (?z occurs)"
    by auto
  then have "p = exp (real k * ln (?h r) - ?h r - sp_loggamma E (real k + 1))"
    using zip_probas_multi [of k a r p occurs "rup_args_of src" rate_of "sp_loggamma E" ?h]
    by simp
  with rup show ?thesis by (simp add: occurrence_rate_make_rupture)
qed

lemma fault_source_run:
  "\<exists>out g' p. sample_ruptures_poissonian (scripted_env []) fault_source 1000 [2, 0, 1]
                 = Inr (out, g')
     \<and> (demo_rupture 6 (1 / 100), 2, p) \<in> set out"
  by (simp add: sample_ruptures_poissonian_def fault_source_def scripted_env_sel
        random_poisson_def next_draw_simps probas_of_def demo_rupture_def Let_def)

theorem sample_ruptures_poissonian_proba_witness:
  "\<exists>out g' p. sample_ruptures_poissonian (scripted_env []) fault_source 1000 [2, 0, 1]
                 = Inr (out, g')
     \<and> temporal_occurrence_model fault_source = Some \<lparr>time_span = 1\<rparr>
     \<and> (demo_rupture 6 (1 / 100), 2, p) \<in> set out
     \<and> p = exp (2 * ln 10 - 10 - ln 2)"
proof -
  obtain out g' p where
    run: "sample_ruptures_poissonian (scripted_env []) fault_source 1000 [2, 0, 1]
            = Inr (out, g')"
    and mem: "(demo_rupture 6 (1 / 100), 2, p) \<in> set out"
    using fault_source_run by blast
  have t: "temporal_occurrence_model fault_source = Some \<lparr>time_span = 1\<rparr>"
    by (simp add: fault_source_def)
  have "p = exp (2 * ln 10 - 10 - ln 2)"
    using sample_ruptures_poissonian_proba [OF run t mem]
    by (simp add: demo_rupture_def scripted_env_sel ln_factorial_def fact_numeral)
  with run t mem show ?thesis by blast
qed






















lemma pick_rupture_nth:
  "pick_rupture rid i k rups =
     (if k \<le> i \<and> i - k < length rups
      then Some ((case rid of None \<Rightarrow> rups ! (i - k)
                  | Some r \<Rightarrow> (rups ! (i - k))\<lparr>rup_id := Some r\<rparr>)\<lparr>idx := Some i\<rparr>)
      else None)"
proof (induction rups arbitrary: k)
  case Nil
  then show ?case by simp
next
  case (Cons rup rups)
  show ?case
  proof (cases "k = i")
    case True
    then show ?thesis by (cases rid) simp_all
  next
    case False
    then show ?thesis
      by (auto simp: Cons.IH Suc_diff_Suc nth_Cons' split: option.splits)
  qed
qed

text \<open>
  C5. \<^verbatim>\<open>get_one_rupture\<close> of a parametric source fails with an assertion error when
  \<^verbatim>\<open>rupture_mutex\<close> is true. Otherwise it seeds the generator from the source's seed,
  draws an index among \<^verbatim>\<open>count_ruptures()\<close> candidates and returns the rupture of
  \<^verbatim>\<open>iter_ruptures\<close> at that index, tagged with the index (and with the source's
  \<^verbatim>\<open>rup_id\<close> when it has one); this for a source whose rupture count is positive and
  is the number of ruptures it iterates, and a draw inside the range.
\<close>

theorem get_one_rupture_contract:
  "get_one_rupture E entropy src True g0
     = Inl (AssertionError
         ''Mutually exclusive ruptures are admitted only in case of non-parametric sources'')
   \<and> (random_seed_opt E entropy (seed src) = Inr g
        \<and> count_ruptures src = length (iter_ruptures src) \<and> 0 < count_ruptures src
        \<and> np_choice1 E g (count_ruptures src) = (i, g') \<and> i < count_ruptures src
      \<longrightarrow> get_one_rupture E entropy src False g0
            = Inr (Some ((case src_rup_id src of None \<Rightarrow> iter_ruptures src ! i
                          | Some r \<Rightarrow> (iter_ruptures src ! i)\<lparr>rup_id := Some r\<rparr>)
                         \<lparr>idx := Some i\<rparr>), g'))"
proof (intro conjI impI)
  show "get_one_rupture E entropy src True g0
     = Inl (AssertionError
         ''Mutually exclusive ruptures are admitted only in case of non-parametric sources'')"
    by (simp add: get_one_rupture_def)
next
  assume a: "random_seed_opt E entropy (seed src) = Inr g
        \<and> count_ruptures src = length (iter_ruptures src) \<and> 0 < count_ruptures src
        \<and> np_choice1 E g (count_ruptures src) = (i, g') \<and> i < count_ruptures src"
  then have a1: "random_seed_opt E entropy (seed src) = Inr g"
    and a2: "count_ruptures src = length (iter_ruptures src)"
    and a3: "0 < count_ruptures src"
    and a4: "np_choice1 E g (count_ruptures src) = (i, g')"
    and a5: "i < count_ruptures src"
    by blast+
  from a3 a4 have c: "random_choice E g (count_ruptures src) = Inr (i, g')"
    unfolding random_choice_def by simp
  from a2 a5 have lt: "i < length (iter_ruptures src)" by simp
  have p: "pick_rupture (src_rup_id src) i 0 (iter_ruptures src)
      = Some ((case src_rup_id src of None \<Rightarrow> iter_ruptures src ! i
               | Some r \<Rightarrow> (iter_ruptures src ! i)\<lparr>rup_id := Some r\<rparr>)\<lparr>idx := Some i\<rparr>)"
    using pick_rupture_nth [of "src_rup_id src" i 0 "iter_ruptures src"] lt
    by (simp only: le0 diff_zero simp_thms if_True)
  from a1 c p show "get_one_rupture E entropy src False g0
      = Inr (Some ((case src_rup_id src of None \<Rightarrow> iter_ruptures src ! i
                    | Some r \<Rightarrow> (iter_ruptures src ! i)\<lparr>rup_id := Some r\<rparr>)
                   \<lparr>idx := Some i\<rparr>), g')"
    unfolding get_one_rupture_def Let_def by (simp only: if_False sum.case prod.case)
qed

lemma fault_source_sel:
  "seed fault_source = Some 42" "src_rup_id fault_source = None"
  "count_ruptures fault_source = 3"
  "iter_ruptures fault_source
     = [demo_rupture 6 (1 / 100), demo_rupture 7 (2 / 100), demo_rupture 8 (5 / 1000)]"
  by (simp_all add: fault_source_def)

theorem get_one_rupture_contract_witness:
  "get_one_rupture (scripted_env [4]) [] fault_source True []
     = Inl (AssertionError
         ''Mutually exclusive ruptures are admitted only in case of non-parametric sources'')
   \<and> random_seed_opt (scripted_env [4]) [] (seed fault_source) = Inr [46]
   \<and> count_ruptures fault_source = length (iter_ruptures fault_source)
   \<and> 0 < count_ruptures fault_source
   \<and> np_choice1 (scripted_env [4]) [46] (count_ruptures fault_source) = (1, [])
   \<and> get_one_rupture (scripted_env [4]) [] fault_source False []
     = Inr (Some ((demo_rupture 7 (2 / 100))\<lparr>idx := Some 1\<rparr>), [])"
proof -
  let ?E = "scripted_env [4]"
  have h: "random_seed_opt ?E [] (seed fault_source) = Inr [46]
      \<and> count_ruptures fault_source = length (iter_ruptures fault_source)
      \<and> 0 < count_ruptures fault_source
      \<and> np_choice1 ?E [46] (count_ruptures fault_source) = (1, [])
      \<and> 1 < count_ruptures fault_source"
    by (simp add: random_seed_opt_def random_seed_def fault_source_sel scripted_env_sel
          next_draw_simps)
  from get_one_rupture_contract [of ?E "[]" fault_source "[]" "[46]" 1 "[]"]
  have a: "get_one_rupture ?E [] fault_source True []
     = Inl (AssertionError
         ''Mutually exclusive ruptures are admitted only in case of non-parametric sources'')"
    and b: "random_seed_opt ?E [] (seed fault_source) = Inr [46]
      \<and> count_ruptures fault_source = length (iter_ruptures fault_source)
      \<and> 0 < count_ruptures fault_source
      \<and> np_choice1 ?E [46] (count_ruptures fault_source) = (1, [])
      \<and> 1 < count_ruptures fault_source \<longrightarrow>
      get_one_rupture ?E [] fault_source False []
        = Inr (Some ((case src_rup_id fault_source of None \<Rightarrow> iter_ruptures fault_source ! 1
                      | Some r \<Rightarrow> (iter_ruptures fault_source ! 1)\<lparr>rup_id := Some r\<rparr>)
                     \<lparr>idx := Some 1\<rparr>), [])"
    by blast+
  from b h have "get_one_rupture ?E [] fault_source False []
        = Inr (Some ((case src_rup_id fault_source of None \<Rightarrow> iter_ruptures fault_source ! 1
                      | Some r \<Rightarrow> (iter_ruptures fault_source ! 1)\<lparr>rup_id := Some r\<rparr>)
                     \<lparr>idx := Some 1\<rparr>), [])"
    by blast
  then have c: "get_one_rupture ?E [] fault_source False []
     = Inr (Some ((demo_rupture 7 (2 / 100))\<lparr>idx := Some 1\<rparr>), [])"
    by (simp add: fault_source_sel)
  from a h c show ?thesis by blast
qed

section \<open>Properties of the UCERF classical calculator\<close>

text \<open>
  C6. When the distance filter leaves no site, the task returns normally the freshly
  constructed probability map (no site, hence probability 0 everywhere) with an
  effective-rupture count of 0 for the group of the source. The source and the world
  come back unchanged: \<^verbatim>\<open>poe_map\<close> has not been called.
\<close>

theorem empty_sites_fast_path:
  assumes "snd (filter_sites_by_distance_from_rupture_set U us rupset (sitecol sf)
                  (integration_distance sf (DEFAULT_TRT U))) = []"
  shows "\<exists>pm. ucerf_classical_hazard_by_rupture_set U rupset us sf gsims oq w = Inr (pm, us, w)
          \<and> curves pm = Map.empty
          \<and> eff_ruptures pm = [src_group_id us \<mapsto> 0]
          \<and> pm_grp_id pm = Some (src_group_id us)
          \<and> pm = (ProbabilityMap (imtls_array_len (imtls oq)) (length gsims))
                   \<lparr>eff_ruptures := [src_group_id us \<mapsto> 0],
                    pm_grp_id := Some (src_group_id us)\<rparr>"
  using assms
  by (cases "filter_sites_by_distance_from_rupture_set U us rupset (sitecol sf)
               (integration_distance sf (DEFAULT_TRT U))")
     (simp add: ucerf_classical_hazard_by_rupture_set_def Let_def ProbabilityMap_def)

lemma demo_filter:
  "filter_sites_by_distance_from_rupture_set (demo_ucerf_env near) us rupset sites d
     = (rupset, filter (\<lambda>s. s \<in> set near) sites)"
  "DEFAULT_TRT (demo_ucerf_env near) = ''Active Shallow Crust''"
  "poe_map (demo_ucerf_env near) us sites imts cmaker trunc
     = Inr ((ProbabilityMap (imtls_array_len imts) (length (cm_gsims cmaker)))
              \<lparr>curves := [0 \<mapsto> [[0]]]\<rparr>)"
  "poe_map_seconds (demo_ucerf_env near) us sites = 2"
  by (simp_all add: demo_ucerf_env_def)

theorem empty_sites_fast_path_witness:
  "snd (filter_sites_by_distance_from_rupture_set (demo_ucerf_env []) demo_ucerf_source
          [4, 5, 6] (sitecol demo_src_filter)
          (integration_distance demo_src_filter (DEFAULT_TRT (demo_ucerf_env [])))) = []
   \<and> (\<exists>pm. ucerf_classical_hazard_by_rupture_set (demo_ucerf_env []) [4, 5, 6]
               demo_ucerf_source demo_src_filter [''gsim1''] demo_oqparam world0
             = Inr (pm, demo_ucerf_source, world0)
          \<and> curves pm = Map.empty \<and> eff_ruptures pm = [3 \<mapsto> 0])"
proof -
  have h: "snd (filter_sites_by_distance_from_rupture_set (demo_ucerf_env []) demo_ucerf_source
          [4, 5, 6] (sitecol demo_src_filter)
          (integration_distance demo_src_filter (DEFAULT_TRT (demo_ucerf_env [])))) = []"
    by (simp add: demo_filter)
  have g: "src_group_id demo_ucerf_source = 3" by (simp add: demo_ucerf_source_def)
  from empty_sites_fast_path [OF h, of "[''gsim1'']" demo_oqparam world0]
  show ?thesis using h unfolding g by blast
qed

subsection \<open>The conversion of a source node\<close>







subsection \<open>The merge of probability maps\<close>

lemma poe_or_commute: "poe_or a b = poe_or b a"
  by (simp add: poe_or_def mult.commute)

lemma poe_or_assoc: "poe_or (poe_or a b) c = poe_or a (poe_or b c)"
  by (simp add: poe_or_def algebra_simps)

lemma map2_commute:
  "(\<And>a b. f a b = f b a) \<Longrightarrow> map2 f xs ys = map2 f ys xs"
proof (induction xs arbitrary: ys)
  case Nil
  then show ?case by simp
next
  case (Cons x xs)
  then show ?case by (cases ys) simp_all
qed

lemma map2_assoc:
  "(\<And>a b c. f (f a b) c = f a (f b c)) \<Longrightarrow>
   map2 f (map2 f xs ys) zs = map2 f xs (map2 f ys zs)"
proof (induction xs arbitrary: ys zs)
  case Nil
  then show ?case by simp
next
  case (Cons x xs)
  show ?case
  proof (cases ys)
    case Nil
    then show ?thesis by simp
  next
    case ys: (Cons y ys')
    show ?thesis
    proof (cases zs)
      case Nil
      then show ?thesis by simp
    next
      case (Cons z zs')
      with ys Cons.IH [OF Cons.prems, of ys' zs'] Cons.prems show ?thesis by simp
    qed
  qed
qed

lemma array_or_commute: "array_or x y = array_or y x"
  unfolding array_or_def by (rule map2_commute) (rule map2_commute, rule poe_or_commute)

lemma array_or_assoc: "array_or (array_or x y) z = array_or x (array_or y z)"
  unfolding array_or_def by (rule map2_assoc) (rule map2_assoc, rule poe_or_assoc)

text \<open>
  C8. The merge of probability maps is commutative and associative on the probabilities,
  and the freshly constructed map is its identity on either side. Over the reals the
  equalities are exact; the floating-point tolerance of the claim is not modelled.
\<close>

theorem pmap_ior_algebra:
  "curves (pmap_ior A B) = curves (pmap_ior B A)
   \<and> curves (pmap_ior (pmap_ior A B) C) = curves (pmap_ior A (pmap_ior B C))
   \<and> curves (pmap_ior (ProbabilityMap y z) A) = curves A
   \<and> curves (pmap_ior A (ProbabilityMap y z)) = curves A"
proof (intro conjI)
  show "curves (pmap_ior A B) = curves (pmap_ior B A)"
    by (rule ext) (simp add: pmap_ior_def array_or_commute split: option.splits)
  show "curves (pmap_ior (pmap_ior A B) C) = curves (pmap_ior A (pmap_ior B C))"
    by (rule ext) (simp add: pmap_ior_def array_or_assoc split: option.splits)
  show "curves (pmap_ior (ProbabilityMap y z) A) = curves A"
    by (rule ext) (simp add: pmap_ior_def ProbabilityMap_def)
  show "curves (pmap_ior A (ProbabilityMap y z)) = curves A"
    by (rule ext) (simp add: pmap_ior_def ProbabilityMap_def split: option.splits)
qed


subsection \<open>The count of effective ruptures\<close>

text \<open>
  C10. When the distance filter leaves at least one site, the effective-rupture count
  of the returned map, for the group of the source, is the number of rupture indices of
  the filtered subset. It is set before \<^verbatim>\<open>poe_map\<close> is called and does not depend on
  what \<^verbatim>\<open>poe_map\<close> returns: whenever \<^verbatim>\<open>poe_map\<close> returns a map, whatever its
  probabilities, the task returns with that count.
\<close>

theorem eff_ruptures_counts_subset:
  assumes f: "filter_sites_by_distance_from_rupture_set U us rupset (sitecol sf)
                (integration_distance sf (DEFAULT_TRT U)) = (rupset1, s_sites)"
    and ne: "s_sites \<noteq> []"
  shows "(\<forall>pm us1 w1.
            ucerf_classical_hazard_by_rupture_set U rupset us sf gsims oq w = Inr (pm, us1, w1)
            \<longrightarrow> eff_ruptures pm = [src_group_id us \<mapsto> length rupset1]
                \<and> us_num_ruptures us1 = length rupset1)
         \<and> (\<forall>upmap.
              poe_map U (us\<lparr>us_src_filter := Some sf, rupset_idx := rupset1,
                            us_num_ruptures := length rupset1\<rparr>)
                s_sites (imtls oq)
                \<lparr>cm_gsims = gsims,
                 cm_maximum_distance = integration_distance sf (DEFAULT_TRT U)\<rparr>
                (truncation_level oq) = Inr upmap
              \<longrightarrow> (\<exists>pm us1 w1.
                     ucerf_classical_hazard_by_rupture_set U rupset us sf gsims oq w
                       = Inr (pm, us1, w1)
                     \<and> eff_ruptures pm = [src_group_id us \<mapsto> length rupset1]
                     \<and> curves pm = curves upmap))"
proof -
  let ?us1 = "us\<lparr>us_src_filter := Some sf\<rparr>"
  let ?cm = "\<lparr>cm_gsims = gsims,
             cm_maximum_distance = integration_distance sf (DEFAULT_TRT U)\<rparr>"
  have task: "ucerf_classical_hazard_by_rupture_set U rupset us sf gsims oq w
      = hazard_curves_per_rupture_subset U rupset1 ?us1 s_sites (imtls oq) ?cm
          (truncation_level oq) w"
    using f ne by (simp add: ucerf_classical_hazard_by_rupture_set_def Let_def)
  show ?thesis
    unfolding task
    by (auto simp: hazard_curves_per_rupture_subset_def call_poe_map_def Let_def pmap_ior_def
          ProbabilityMap_def split: sum.splits)
qed

theorem eff_ruptures_counts_subset_witness:
  "filter_sites_by_distance_from_rupture_set (demo_ucerf_env [0]) demo_ucerf_source
       [4, 5, 6] (sitecol demo_src_filter)
       (integration_distance demo_src_filter (DEFAULT_TRT (demo_ucerf_env [0])))
     = ([4, 5, 6], [0])
   \<and> [0 :: nat] \<noteq> []
   \<and> (\<exists>pm us1 w1.
         ucerf_classical_hazard_by_rupture_set (demo_ucerf_env [0]) [4, 5, 6]
             demo_ucerf_source demo_src_filter [''gsim1''] demo_oqparam world0
           = Inr (pm, us1, w1)
         \<and> eff_ruptures pm = [3 \<mapsto> 3]
         \<and> curves pm = [0 \<mapsto> [[0]]])"
proof -
  have f: "filter_sites_by_distance_from_rupture_set (demo_ucerf_env [0]) demo_ucerf_source
       [4, 5, 6] (sitecol demo_src_filter)
       (integration_distance demo_src_filter (DEFAULT_TRT (demo_ucerf_env [0])))
     = ([4, 5, 6], [0])"
    by (simp add: demo_filter demo_src_filter_def)
  have ne: "[0 :: nat] \<noteq> []" by simp
  have g: "src_group_id demo_ucerf_source = 3" by (simp add: demo_ucerf_source_def)
  let ?us = "demo_ucerf_source\<lparr>us_src_filter := Some demo_src_filter, rupset_idx := [4, 5, 6],
               us_num_ruptures := length [4, 5, 6 :: nat]\<rparr>"
  let ?cm = "\<lparr>cm_gsims = [''gsim1''],
             cm_maximum_distance
               = integration_distance demo_src_filter (DEFAULT_TRT (demo_ucerf_env [0]))\<rparr>"
  let ?up = "(ProbabilityMap (imtls_array_len (imtls demo_oqparam)) (length (cm_gsims ?cm)))
               \<lparr>curves := [0 \<mapsto> [[0]]]\<rparr>"
  have p: "poe_map (demo_ucerf_env [0]) ?us [0] (imtls demo_oqparam) ?cm
             (truncation_level demo_oqparam) = Inr ?up"
    by (rule demo_filter)
  from eff_ruptures_counts_subset [OF f ne, of "[''gsim1'']" demo_oqparam world0]
  have "\<forall>upmap. poe_map (demo_ucerf_env [0]) ?us [0] (imtls demo_oqparam) ?cm
             (truncation_level demo_oqparam) = Inr upmap
          \<longrightarrow> (\<exists>pm us1 w1.
                 ucerf_classical_hazard_by_rupture_set (demo_ucerf_env [0]) [4, 5, 6]
                     demo_ucerf_source demo_src_filter [''gsim1''] demo_oqparam world0
                   = Inr (pm, us1, w1)
                 \<and> eff_ruptures pm = [src_group_id demo_ucerf_source \<mapsto> length [4, 5, 6 :: nat]]
                 \<and> curves pm = curves upmap)"
    by blast
  with p obtain pm us1 w1 where
    r: "ucerf_classical_hazard_by_rupture_set (demo_ucerf_env [0]) [4, 5, 6]
          demo_ucerf_source demo_src_filter [''gsim1''] demo_oqparam world0 = Inr (pm, us1, w1)"
    and e: "eff_ruptures pm = [src_group_id demo_ucerf_source \<mapsto> length [4, 5, 6 :: nat]]"
    and c: "curves pm = curves ?up"
    by blast
  have "length [4, 5, 6 :: nat] = 3" by simp
  with e g have e': "eff_ruptures pm = [3 \<mapsto> 3]" by (simp only:)
  from c have c': "curves pm = [0 \<mapsto> [[0]]]" by simp
  from f ne r e' c' show ?thesis by blast
qed

section \<open>The capability sets of the composite ground-motion model\<close>

text \<open>
  C9 fails on the code. A first composite model is built for PGA from a model that
  supports PGA only, and reports the intensity-measure types \<open>{PGA}\<close>. Building a second
  composite model, for spectral acceleration, adds to the set of the class: the first
  instance now reports \<open>{PGA, SA}\<close>, although none of its constituents supports SA.
\<close>

theorem MultiGMPE_shared_sets:
  "\<exists>m1 c1 m2 c2.
     MultiGMPE demo_imt_class [(''PGA'', gsim_pga)] MultiGMPE_class = (Inr m1, c1)
     \<and> instance_intensity_measure_types c1 m1 = {''PGA''}
     \<and> MultiGMPE demo_imt_class [(''SA(0.1)'', gsim_sa)] c1 = (Inr m2, c2)
     \<and> instance_intensity_measure_types c2 m1 = {''PGA'', ''SA''}
     \<and> instance_intensity_measure_types c2 m1 \<noteq> instance_intensity_measure_types c1 m1"
  by (simp add: MultiGMPE_def MultiGMPE_class_def demo_imt_class_def gsim_pga_def gsim_sa_def
        instance_intensity_measure_types_def insert_commute)

end
